theory Spec2Isabelle
  imports Complex_Main "HOL-Library.Sublist"
begin

section \<open>The echo backend of Sentinel (backend_server.py)\<close>

text \<open>
  The program is one request handler class (\<open>BackendHandler\<close> with \<open>do_GET\<close> and
  \<open>do_POST\<close>), the function \<open>run_backend\<close> and the script body under
  \<open>__main__\<close>. The embedding follows the source function by function.

  Strings are \<open>string\<close>, one \<open>char\<close> per code point below 256: the standard library
  decodes the request line and the header block as ISO-8859-1, so for everything that comes
  from a request a character is a byte of the wire. The bytes of a request body are a
  \<open>string\<close> as well. Python's unbounded integers are \<open>int\<close>, the clock sample of
  \<open>time.time()\<close> is a \<open>real\<close> handed to the handler.
\<close>

subsection \<open>Values and exceptions\<close>

datatype error = ValueError | OverflowError | OSError

text \<open>What \<open>headers.get(name, 0)\<close> can return: a header value or the integer default.\<close>

datatype pyval = PStr string | PInt int

text \<open>The values stored in the response dictionary.\<close>

datatype json = JStr string | JInt int | JFloat real

type_synonym dict = "(string \<times> json) list"

subsection \<open>The built-ins the source calls\<close>

text \<open>
  \<open>int(s)\<close> on a string, base ten: white space around the literal is dropped, then an
  optional sign, then decimal digits in which single underscores may separate digits.
  Anything else raises \<open>ValueError\<close>. Below code point 256 the characters \<open>int\<close>
  skips are 0x09 to 0x0D, the blank, 0x85 and 0xA0, and the digits are \<open>0\<close> to \<open>9\<close>.
  (The interpreter's optional cap on the number of digits of a literal is left out.)
\<close>

definition is_space :: "char \<Rightarrow> bool" where
  "is_space c = (c \<in> set [CHR 0x09, CHR 0x0A, CHR 0x0B, CHR 0x0C, CHR 0x0D, CHR 0x20, CHR 0x85, CHR 0xA0])"

definition is_digit :: "char \<Rightarrow> bool" where
  "is_digit c = (48 \<le> (of_char c :: nat) \<and> (of_char c :: nat) \<le> 57)"

definition digit_val :: "char \<Rightarrow> nat" where
  "digit_val c = of_char c - 48"

definition strip :: "string \<Rightarrow> string" where
  "strip s = rev (dropWhile is_space (rev (dropWhile is_space s)))"

text \<open>
  The scan of the digit run: \<open>prev_us\<close> tells that the character before was an
  underscore, which may neither be doubled nor end the run.
\<close>

fun scan_digits :: "nat \<Rightarrow> bool \<Rightarrow> string \<Rightarrow> error + nat" where
  "scan_digits acc prev_us [] = (if prev_us then Inl ValueError else Inr acc)"
| "scan_digits acc prev_us (c # cs) =
     (if is_digit c then scan_digits (10 * acc + digit_val c) False cs
      else if c = CHR ''_'' \<and> \<not> prev_us then scan_digits acc True cs
      else Inl ValueError)"

definition digits :: "string \<Rightarrow> error + nat" where
  "digits s =
     (case s of
        [] \<Rightarrow> Inl ValueError
      | c # cs \<Rightarrow> if is_digit c then scan_digits 0 False s else Inl ValueError)"

definition int_of_str :: "string \<Rightarrow> error + int" where
  "int_of_str s =
     (case strip s of
        [] \<Rightarrow> Inl ValueError
      | c # cs \<Rightarrow>
          if c = CHR ''-'' then (case digits cs of Inl e \<Rightarrow> Inl e | Inr n \<Rightarrow> Inr (- int n))
          else if c = CHR ''+'' then (case digits cs of Inl e \<Rightarrow> Inl e | Inr n \<Rightarrow> Inr (int n))
          else (case digits (c # cs) of Inl e \<Rightarrow> Inl e | Inr n \<Rightarrow> Inr (int n)))"

text \<open>\<open>int(x)\<close>: an integer is returned as it is, a string is parsed.\<close>

fun py_int :: "pyval \<Rightarrow> error + int" where
  "py_int (PInt n) = Inr n"
| "py_int (PStr s) = int_of_str s"

text \<open>\<open>str(n)\<close> of an integer, as the f-strings of the source format a port.\<close>

definition digit_char :: "nat \<Rightarrow> char" where
  "digit_char d = char_of (48 + d)"

fun str_nat :: "nat \<Rightarrow> string" where
  "str_nat n = (if n < 10 then [digit_char n] else str_nat (n div 10) @ [digit_char (n mod 10)])"

declare str_nat.simps [simp del]

definition str_int :: "int \<Rightarrow> string" where
  "str_int i = (if i < 0 then CHR ''-'' # str_nat (nat (- i)) else str_nat (nat i))"

text \<open>
  \<open>self.headers.get(name, failobj)\<close>: the header block is the list of (name, value) pairs
  in the order received; the lookup compares names without regard to case and returns the
  value of the first match, or \<open>failobj\<close>. \<open>str.lower\<close> below code point 256 moves
  \<open>A\<close> to \<open>Z\<close> and 0xC0 to 0xDE (but not 0xD7) up by 32.
\<close>

definition lower_char :: "char \<Rightarrow> char" where
  "lower_char c =
     (let n = (of_char c :: nat)
      in if (65 \<le> n \<and> n \<le> 90) \<or> (192 \<le> n \<and> n \<le> 222 \<and> n \<noteq> 215)
         then char_of (n + 32) else c)"

definition lower :: "string \<Rightarrow> string" where
  "lower s = map lower_char s"

fun headers_get :: "(string \<times> string) list \<Rightarrow> string \<Rightarrow> pyval \<Rightarrow> pyval" where
  "headers_get [] name failobj = failobj"
| "headers_get ((k, v) # hs) name failobj =
     (if lower k = lower name then PStr v else headers_get hs name failobj)"

text \<open>
  \<open>self.rfile.read(n)\<close>: \<open>rfile\<close> is the buffered reader of the connection, on a
  64-bit build. The stream is the bytes that arrive before the peer closes its sending
  side. The reader first takes \<open>n\<close> as a signed 64-bit size: below \<open>-2^63\<close> that
  raises \<open>OverflowError\<close>. For the other \<open>n < -1\<close> it raises \<open>ValueError\<close>; in
  both cases it consumes nothing. For \<open>n = -1\<close> it returns everything up to the end of
  the stream. For \<open>n \<ge> 0\<close> it returns \<open>n\<close> bytes, or all that are left when the
  stream ends earlier. The result is the bytes read and the bytes left.

  Two things are outside the model. A peer that stops sending without closing keeps the
  read waiting. And for \<open>n \<ge> 0\<close> the reader sets aside room for \<open>n\<close> bytes before it
  reads: the model is of a machine that has that room, so the \<open>MemoryError\<close> of a machine
  that has not (and the \<open>OverflowError\<close> from \<open>2^63 - 33\<close> on, which no memory can
  hold) do not occur in it.
\<close>

definition rfile_read :: "string \<Rightarrow> int \<Rightarrow> error + string \<times> string" where
  "rfile_read stream n =
     (if n < - 9223372036854775808 then Inl OverflowError
      else if n < - 1 then Inl ValueError
      else if n = - 1 then Inr (stream, [])
      else Inr (take (nat n) stream, drop (nat n) stream))"

subsection \<open>The handler\<close>

text \<open>
  The server object carries the two attributes the handler reads: \<open>backend_name\<close>, set
  by \<open>run_backend\<close>, and \<open>server_port\<close>, the port of the bound socket.
\<close>

record server =
  backend_name :: string
  server_port :: int

text \<open>
  What the handler writes, one constructor per call of the source: \<open>send_response\<close>,
  \<open>send_header\<close>, \<open>end_headers\<close> and \<open>wfile.write(json.dumps(response).encode())\<close>.
  The JSON document is kept as the dictionary it serialises.
\<close>

datatype wire =
    StatusLine int
  | HeaderLine string string
  | EndHeaders
  | Body dict

text \<open>
  The handler object while one request is served: \<open>path\<close> is \<open>self.path\<close> as
  \<open>parse_request\<close> of the base class has set it from the request line (below),
  \<open>headers\<close> the parsed header block, \<open>rfile\<close> the unread bytes of the connection,
  \<open>wfile\<close> what has been written.
\<close>

record handler =
  server :: server
  path :: string
  headers :: "(string \<times> string) list"
  rfile :: string
  wfile :: "wire list"

definition send_response :: "handler \<Rightarrow> int \<Rightarrow> handler" where
  "send_response h code = h\<lparr>wfile := wfile h @ [StatusLine code]\<rparr>"

definition send_header :: "handler \<Rightarrow> string \<Rightarrow> string \<Rightarrow> handler" where
  "send_header h keyword v = h\<lparr>wfile := wfile h @ [HeaderLine keyword v]\<rparr>"

definition end_headers :: "handler \<Rightarrow> handler" where
  "end_headers h = h\<lparr>wfile := wfile h @ [EndHeaders]\<rparr>"

definition wfile_write :: "handler \<Rightarrow> dict \<Rightarrow> handler" where
  "wfile_write h d = h\<lparr>wfile := wfile h @ [Body d]\<rparr>"

text \<open>A call of a handler method returns, or an exception leaves it.\<close>

datatype outcome = Returned handler | Raised error handler

definition do_GET :: "handler \<Rightarrow> real \<Rightarrow> outcome" where
  "do_GET h now =
     (let h1 = send_response h 200;
          h2 = send_header h1 ''Content-Type'' ''application/json'';
          h3 = end_headers h2;
          response =
            [(''backend'', JStr (backend_name (server h3))),
             (''port'', JInt (server_port (server h3))),
             (''path'', JStr (path h3)),
             (''method'', JStr ''GET''),
             (''timestamp'', JFloat now)]
      in Returned (wfile_write h3 response))"

definition do_POST :: "handler \<Rightarrow> real \<Rightarrow> outcome" where
  "do_POST h now =
     (case py_int (headers_get (headers h) ''Content-Length'' (PInt 0)) of
        Inl e \<Rightarrow> Raised e h
      | Inr content_length \<Rightarrow>
          (case rfile_read (rfile h) content_length of
             Inl e \<Rightarrow> Raised e h
           | Inr (body, rest) \<Rightarrow>
               (let h0 = h\<lparr>rfile := rest\<rparr>;
                    h1 = send_response h0 200;
                    h2 = send_header h1 ''Content-Type'' ''application/json'';
                    h3 = end_headers h2;
                    response =
                      [(''backend'', JStr (backend_name (server h3))),
                       (''port'', JInt (server_port (server h3))),
                       (''path'', JStr (path h3)),
                       (''method'', JStr ''POST''),
                       (''body_length'', JInt content_length),
                       (''timestamp'', JFloat now)]
                in Returned (wfile_write h3 response))))"

text \<open>
  Observations on a call: the handler it leaves behind, the number of body bytes it took
  from the stream, what it wrote, the JSON object in that, and a field of the object.
\<close>

fun after :: "outcome \<Rightarrow> handler" where
  "after (Returned h') = h'"
| "after (Raised e h') = h'"

definition bytes_read :: "handler \<Rightarrow> outcome \<Rightarrow> nat" where
  "bytes_read h r = length (rfile h) - length (rfile (after r))"

definition reply :: "handler \<Rightarrow> outcome \<Rightarrow> wire list" where
  "reply h r = drop (length (wfile h)) (wfile (after r))"

fun json_of :: "wire list \<Rightarrow> dict option" where
  "json_of [] = None"
| "json_of (Body d # outs) = Some d"
| "json_of (x # outs) = json_of outs"

definition field :: "string \<Rightarrow> handler \<Rightarrow> outcome \<Rightarrow> json option" where
  "field key h r = (case json_of (reply h r) of None \<Rightarrow> None | Some d \<Rightarrow> map_of d key)"

definition keys :: "handler \<Rightarrow> outcome \<Rightarrow> string list option" where
  "keys h r = map_option (map fst) (json_of (reply h r))"

subsection \<open>From the request line to the handler method\<close>

text \<open>
  \<open>BackendHandler\<close> inherits \<open>handle_one_request\<close> and \<open>parse_request\<close> from
  \<open>BaseHTTPRequestHandler\<close> (standard library, as of CPython 3.11): they turn the first
  line of a request into \<open>self.command\<close> and \<open>self.path\<close> and call \<open>do_GET\<close> or
  \<open>do_POST\<close>. The strings they use: \<open>str.split()\<close> cuts at runs of white space
  (below code point 256: 0x09 to 0x0D, 0x1C to 0x1F, the blank, 0x85 and 0xA0),
  \<open>s.rstrip(chars)\<close> drops the trailing characters that are in \<open>chars\<close>,
  \<open>s.split(sep)\<close> cuts at every \<open>sep\<close>, and \<open>str.isdigit\<close> holds of a string that is
  not empty and made of \<open>0\<close> to \<open>9\<close>, 0xB2, 0xB3 and 0xB9.
\<close>

definition isspace :: "char \<Rightarrow> bool" where
  "isspace c =
     (c \<in> set [CHR 0x09, CHR 0x0A, CHR 0x0B, CHR 0x0C, CHR 0x0D, CHR 0x1C, CHR 0x1D, CHR 0x1E,
                CHR 0x1F, CHR 0x20, CHR 0x85, CHR 0xA0])"

fun split_words :: "string \<Rightarrow> string \<Rightarrow> string list" where
  "split_words cur [] = (if cur = [] then [] else [cur])"
| "split_words cur (c # cs) =
     (if isspace c then (if cur = [] then split_words [] cs else cur # split_words [] cs)
      else split_words (cur @ [c]) cs)"

definition str_split :: "string \<Rightarrow> string list" where
  "str_split s = split_words [] s"

definition rstrip :: "string \<Rightarrow> string \<Rightarrow> string" where
  "rstrip s chars = rev (dropWhile (\<lambda>c. c \<in> set chars) (rev s))"

fun split_at :: "char \<Rightarrow> string \<Rightarrow> string \<Rightarrow> string list" where
  "split_at sep cur [] = [cur]"
| "split_at sep cur (c # cs) =
     (if c = sep then cur # split_at sep [] cs else split_at sep (cur @ [c]) cs)"

definition isdigit :: "string \<Rightarrow> bool" where
  "isdigit s =
     (s \<noteq> [] \<and> list_all (\<lambda>c. is_digit c \<or> c \<in> set [CHR 0xB2, CHR 0xB3, CHR 0xB9]) s)"

text \<open>
  The \<open>try\<close> block of \<open>parse_request\<close> on the last word of a request line of three
  or more words: the version must read \<open>HTTP/major.minor\<close> with two components of at most
  ten digits that \<open>int\<close> accepts. \<open>version.split('/', 1)[1]\<close> is what follows the first
  slash.
\<close>

definition version_number :: "string \<Rightarrow> error + int \<times> int" where
  "version_number version =
     (if \<not> prefix ''HTTP/'' version then Inl ValueError
      else
        (let base_version_number = tl (dropWhile (\<lambda>c. c \<noteq> CHR ''/'') version);
             components = split_at CHR ''.'' [] base_version_number
         in if length components \<noteq> 2 then Inl ValueError
            else if \<not> list_all isdigit components then Inl ValueError
            else if \<not> list_all (\<lambda>component. length component \<le> 10) components then Inl ValueError
            else
              (case int_of_str (components ! 0) of
                 Inl e \<Rightarrow> Inl e
               | Inr major \<Rightarrow>
                   (case int_of_str (components ! 1) of
                      Inl e \<Rightarrow> Inl e
                    | Inr minor \<Rightarrow> Inr (major, minor)))))"

text \<open>
  \<open>parse_request\<close>, the part on the request line: no request at all (an empty line, the
  connection is closed), an error status sent by the base class, or the command and the
  path. The path is the second word of the line, except that a path that starts with two
  slashes has its leading slashes reduced to one. (The header block that
  \<open>parse_request\<close> reads next is the \<open>headers\<close> of the handler.)
\<close>

datatype parsed = NoRequest | BadRequest int | Parsed string string

definition parse_request :: "string \<Rightarrow> parsed" where
  "parse_request raw_requestline =
     (let requestline = rstrip raw_requestline [CHR 0x0D, CHR 0x0A];
          words = str_split requestline
      in if length words = 0 then NoRequest
         else
           (case (if length words \<ge> 3 then version_number (last words) else Inr (0, 9)) of
              Inl e \<Rightarrow> BadRequest 400
            | Inr (major, minor) \<Rightarrow>
                if length words \<ge> 3 \<and> (major > 2 \<or> (major = 2 \<and> minor \<ge> 0)) then BadRequest 505
                else if \<not> (2 \<le> length words \<and> length words \<le> 3) then BadRequest 400
                else
                  (let command = words ! 0; path = words ! 1
                   in if length words = 2 \<and> command \<noteq> ''GET'' then BadRequest 400
                      else if prefix ''//'' path
                        then Parsed command (CHR ''/'' # dropWhile (\<lambda>c. c = CHR ''/'') path)
                        else Parsed command path)))"

text \<open>
  \<open>handle_one_request\<close> on the first line of a request and the handler object: a line of
  more than 65536 bytes is answered with 414, a line that \<open>parse_request\<close> refuses with
  its status; otherwise the method \<open>do_\<close> + command is called when the class has it
  (\<open>do_GET\<close> and \<open>do_POST\<close> are all it has), and 501 is sent when it has not.
\<close>

datatype handled = Closed | SendError int | Called outcome

definition handle_one_request :: "handler \<Rightarrow> string \<Rightarrow> real \<Rightarrow> handled" where
  "handle_one_request h raw_requestline now =
     (if length raw_requestline > 65536 then SendError 414
      else if raw_requestline = [] then Closed
      else
        (case parse_request raw_requestline of
           NoRequest \<Rightarrow> Closed
         | BadRequest status \<Rightarrow> SendError status
         | Parsed command p \<Rightarrow>
             (let h' = h\<lparr>path := p\<rparr>
              in if command = ''GET'' then Called (do_GET h' now)
                 else if command = ''POST'' then Called (do_POST h' now)
                 else SendError 501)))"

text \<open>A field of the JSON object that a request is answered with, if a method answers it.\<close>

definition answer_field :: "string \<Rightarrow> handler \<Rightarrow> handled \<Rightarrow> json option" where
  "answer_field key h a = (case a of Called r \<Rightarrow> field key h r | _ \<Rightarrow> None)"

subsection \<open>Start-up\<close>

text \<open>
  \<open>HTTPServer(('localhost', port), BackendHandler)\<close> binds a socket. What the operating
  system answers is a parameter: the ports on which binding fails (in use, or reserved),
  and the port it hands out when asked for port 0. A port outside 0..65535 is refused with
  \<open>OverflowError\<close> before the system is asked. The result is \<open>server_port\<close>, the port
  of the bound socket.
\<close>

record os =
  unavailable :: "int list"
  ephemeral :: int

definition HTTPServer :: "os \<Rightarrow> int \<Rightarrow> error + int" where
  "HTTPServer sys port =
     (if port < 0 \<or> 65535 < port then Inl OverflowError
      else if port \<in> set (unavailable sys) then Inl OSError
      else if port = 0 then Inr (ephemeral sys)
      else Inr port)"

text \<open>
  The process: the lines printed on standard output, and where it stands: exited through
  \<open>sys.exit\<close>, ended by an exception nobody caught, or inside \<open>serve_forever\<close> with
  the server object the handlers see.
\<close>

datatype state = Exited int | Uncaught error | Serving server

record process =
  stdout :: "string list"
  state :: state

definition run_backend :: "os \<Rightarrow> int \<Rightarrow> string \<Rightarrow> process" where
  "run_backend sys port name =
     (case HTTPServer sys port of
        Inl e \<Rightarrow> \<lparr>stdout = [], state = Uncaught e\<rparr>
      | Inr bound \<Rightarrow>
          \<lparr>stdout =
             [''Starting backend server '' @ [CHR 0x27] @ name @ [CHR 0x27] @ '' on port '' @ str_int port,
              ''Backend URL: http://localhost:'' @ str_int port,
              ''Press Ctrl+C to stop''],
           state = Serving \<lparr>backend_name = name, server_port = bound\<rparr>\<rparr>)"

text \<open>The script body; \<open>argv\<close> is \<open>sys.argv\<close>, the script's own name first.\<close>

definition main :: "os \<Rightarrow> string list \<Rightarrow> process" where
  "main sys argv =
     (if length argv < 2 then
        \<lparr>stdout =
           [''Usage: python backend_server.py <port> [name]'',
            ''Example: python backend_server.py 3000 backend-1''],
         state = Exited 1\<rparr>
      else
        (case py_int (PStr (argv ! 1)) of
           Inl e \<Rightarrow> \<lparr>stdout = [], state = Uncaught e\<rparr>
         | Inr port \<Rightarrow>
             (let name = (if length argv > 2 then argv ! 2 else ''backend-'' @ str_int port)
              in run_backend sys port name)))"

subsection \<open>A backend and a request to run the handler on\<close>

definition backend1 :: server where
  "backend1 = \<lparr>backend_name = ''backend-1'', server_port = 3000\<rparr>"

definition example_request :: "(string \<times> string) list \<Rightarrow> string \<Rightarrow> handler" where
  "example_request hs bytes =
     \<lparr>server = backend1, path = ''/ingest?a=%41//b'', headers = hs, rfile = bytes, wfile = []\<rparr>"

section \<open>Properties\<close>

subsection \<open>The built-ins\<close>

lemma scan_digits_error: "scan_digits acc b s = Inl e \<Longrightarrow> e = ValueError"
  by (induction acc b s rule: scan_digits.induct) (auto split: if_splits)

lemma digits_error: "digits s = Inl e \<Longrightarrow> e = ValueError"
  by (auto simp: digits_def split: list.splits if_splits dest: scan_digits_error)

lemma int_of_str_error: "int_of_str s = Inl e \<Longrightarrow> e = ValueError"
  by (auto simp: int_of_str_def split: list.splits if_splits sum.splits dest: digits_error)

lemma py_int_error: "py_int v = Inl e \<Longrightarrow> e = ValueError"
  by (cases v) (auto dest: int_of_str_error)

lemma is_digit_digit_char: "d < 10 \<Longrightarrow> is_digit (digit_char d)"
  by (simp add: is_digit_def digit_char_def)

lemma digit_val_digit_char: "d < 10 \<Longrightarrow> digit_val (digit_char d) = d"
  by (simp add: digit_val_def digit_char_def)

lemma digit_not_space: "is_digit c \<Longrightarrow> \<not> is_space c"
  by (auto simp: is_digit_def is_space_def)

lemma digit_not_sign: "is_digit c \<Longrightarrow> c \<noteq> CHR ''-'' \<and> c \<noteq> CHR ''+''"
  by (auto simp: is_digit_def)

lemma str_nat_digits: "c \<in> set (str_nat n) \<Longrightarrow> is_digit c"
proof (induction n arbitrary: c rule: str_nat.induct)
  case (1 n c)
  show ?case
  proof (cases "n < 10")
    case True
    with "1.prems" show ?thesis
      by (simp add: str_nat.simps [of n] is_digit_digit_char)
  next
    case False
    with "1.prems" have "c \<in> set (str_nat (n div 10)) \<or> c = digit_char (n mod 10)"
      by (auto simp: str_nat.simps [of n])
    with False "1.IH" show ?thesis
      by (auto simp: is_digit_digit_char)
  qed
qed

lemma str_nat_nonempty: "str_nat n \<noteq> []"
  by (simp add: str_nat.simps [of n])

lemma scan_digits_all_digits:
  "\<forall>c\<in>set ds. is_digit c \<Longrightarrow> scan_digits acc False ds = Inr (foldl (\<lambda>a c. 10 * a + digit_val c) acc ds)"
  by (induction ds arbitrary: acc) auto

lemma value_str_nat: "foldl (\<lambda>a c. 10 * a + digit_val c) 0 (str_nat n) = n"
proof (induction n rule: str_nat.induct)
  case (1 n)
  show ?case
  proof (cases "n < 10")
    case True
    then show ?thesis by (simp add: str_nat.simps [of n] digit_val_digit_char)
  next
    case False
    with "1.IH" show ?thesis
      by (simp add: str_nat.simps [of n] digit_val_digit_char)
  qed
qed

lemma strip_digits:
  assumes "\<forall>c\<in>set s. is_digit c"
  shows "strip s = s"
proof (cases s)
  case Nil
  then show ?thesis by (simp add: strip_def)
next
  case (Cons c cs)
  with assms have a: "dropWhile is_space s = s"
    by (simp add: digit_not_space)
  from Cons have "rev s \<noteq> []" by simp
  then obtain d ds where r: "rev s = d # ds" by (cases "rev s") auto
  then have "d \<in> set s" by (metis list.set_intros(1) set_rev)
  with assms have "\<not> is_space d" by (simp add: digit_not_space)
  with r have "dropWhile is_space (rev s) = rev s" by simp
  with a show ?thesis by (simp add: strip_def)
qed

lemma digits_str_nat: "digits (str_nat n) = Inr n"
proof -
  obtain c cs where s: "str_nat n = c # cs"
    using str_nat_nonempty [of n] by (cases "str_nat n") auto
  then have "is_digit c" using str_nat_digits [of c n] by simp
  moreover have "scan_digits 0 False (str_nat n) = Inr n"
    using scan_digits_all_digits [of "str_nat n" 0] str_nat_digits [of _ n] value_str_nat [of n]
    by simp
  ultimately show ?thesis using s by (simp add: digits_def)
qed

lemma int_of_str_str_nat: "int_of_str (str_nat n) = Inr (int n)"
proof -
  obtain c cs where s: "str_nat n = c # cs"
    using str_nat_nonempty [of n] by (cases "str_nat n") auto
  then have "is_digit c" using str_nat_digits [of c n] by simp
  then have sign: "c \<noteq> CHR ''-''" "c \<noteq> CHR ''+''" using digit_not_sign by auto
  have "strip (str_nat n) = c # cs"
    using strip_digits [of "str_nat n"] str_nat_digits [of _ n] s by simp
  moreover have "digits (c # cs) = Inr n" using digits_str_nat [of n] s by simp
  ultimately show ?thesis using sign by (simp add: int_of_str_def)
qed

subsection \<open>The two handler methods, unfolded\<close>

lemma do_POST_returns:
  assumes "py_int (headers_get (headers h) ''Content-Length'' (PInt 0)) = Inr n" and "- 1 \<le> n"
  shows "do_POST h now = Returned
           (h\<lparr>rfile := (if n = - 1 then [] else drop (nat n) (rfile h)),
              wfile := wfile h @
                [StatusLine 200, HeaderLine ''Content-Type'' ''application/json'', EndHeaders,
                 Body [(''backend'', JStr (backend_name (server h))),
                       (''port'', JInt (server_port (server h))),
                       (''path'', JStr (path h)),
                       (''method'', JStr ''POST''),
                       (''body_length'', JInt n),
                       (''timestamp'', JFloat now)]]\<rparr>)"
  using assms
  by (simp add: do_POST_def rfile_read_def send_response_def send_header_def end_headers_def
      wfile_write_def)

lemma do_POST_raises_int:
  assumes "py_int (headers_get (headers h) ''Content-Length'' (PInt 0)) = Inl e"
  shows "do_POST h now = Raised ValueError h"
  using assms py_int_error [OF assms] by (simp add: do_POST_def)

lemma do_POST_raises_read:
  assumes "py_int (headers_get (headers h) ''Content-Length'' (PInt 0)) = Inr n" and "n < - 1"
  shows "do_POST h now =
           Raised (if n < - 9223372036854775808 then OverflowError else ValueError) h"
  using assms by (simp add: do_POST_def rfile_read_def)

lemma do_POST_Returned_content_length:
  assumes "do_POST h now = Returned h'"
  obtains n where "py_int (headers_get (headers h) ''Content-Length'' (PInt 0)) = Inr n" and "- 1 \<le> n"
proof (cases "py_int (headers_get (headers h) ''Content-Length'' (PInt 0))")
  case (Inl e)
  with assms show ?thesis using do_POST_raises_int [of h e now] by simp
next
  case (Inr n)
  show ?thesis
  proof (cases "n < - 1")
    case True
    with Inr assms show ?thesis using do_POST_raises_read [of h n now] by simp
  next
    case False
    with Inr that show ?thesis by simp
  qed
qed

lemma do_GET_returns:
  "do_GET h now = Returned
     (h\<lparr>wfile := wfile h @
          [StatusLine 200, HeaderLine ''Content-Type'' ''application/json'', EndHeaders,
           Body [(''backend'', JStr (backend_name (server h))),
                 (''port'', JInt (server_port (server h))),
                 (''path'', JStr (path h)),
                 (''method'', JStr ''GET''),
                 (''timestamp'', JFloat now)]]\<rparr>)"
  by (simp add: do_GET_def send_response_def send_header_def end_headers_def wfile_write_def)

lemma headers_get_absent:
  "lower name \<notin> set (map (\<lambda>kv. lower (fst kv)) hs) \<Longrightarrow> headers_get hs name failobj = failobj"
  by (induction hs) auto

lemmas observe = field_def keys_def reply_def bytes_read_def

lemmas evaluate = example_request_def backend1_def lower_def lower_char_def int_of_str_def
  strip_def is_space_def digits_def is_digit_def digit_val_def

lemma run_backend_Serving:
  assumes "state (run_backend sys P N) = Serving srv"
  shows "backend_name srv = N \<and> server_port srv = (if P = 0 then ephemeral sys else P)"
  using assms by (auto simp: run_backend_def HTTPServer_def split: if_splits)

lemma fields_of_Returned:
  assumes "r = do_GET h now \<or> r = do_POST h now" and "r = Returned h'"
  shows "field ''backend'' h r = Some (JStr (backend_name (server h)))
       \<and> field ''port'' h r = Some (JInt (server_port (server h)))
       \<and> field ''path'' h r = Some (JStr (path h))"
proof -
  from assms(1) show ?thesis
  proof
    assume "r = do_GET h now"
    then show ?thesis by (simp add: do_GET_returns observe)
  next
    assume p: "r = do_POST h now"
    with assms(2) have "do_POST h now = Returned h'" by simp
    then obtain n
      where n: "py_int (headers_get (headers h) ''Content-Length'' (PInt 0)) = Inr n" and "- 1 \<le> n"
      by (rule do_POST_Returned_content_length)
    from do_POST_returns [OF this, of now] p show ?thesis
      by (simp add: observe)
  qed
qed

subsection \<open>POST without a Content-Length header\<close>

text \<open>
  C3: a POST request with no \<open>Content-Length\<close> header (no header name equal to it up to
  case) reads zero body bytes, and the JSON of the response, sent with status 200, has
  \<open>body_length\<close> 0.
\<close>

theorem post_without_content_length:
  assumes "lower ''Content-Length'' \<notin> set (map (\<lambda>kv. lower (fst kv)) (headers h))"
  shows "bytes_read h (do_POST h now) = 0
       \<and> field ''body_length'' h (do_POST h now) = Some (JInt 0)
       \<and> take 1 (reply h (do_POST h now)) = [StatusLine 200]"
proof -
  have "py_int (headers_get (headers h) ''Content-Length'' (PInt 0)) = Inr 0"
    using headers_get_absent [OF assms] by simp
  from do_POST_returns [OF this, of now] show ?thesis
    by (simp add: observe)
qed

theorem post_without_content_length_witness:
  "lower ''Content-Length'' \<notin> set (map (\<lambda>kv. lower (fst kv)) (headers (example_request [(''Host'', ''localhost:3000'')] ''hello'')))
   \<and> bytes_read (example_request [(''Host'', ''localhost:3000'')] ''hello'')
        (do_POST (example_request [(''Host'', ''localhost:3000'')] ''hello'') 0) = 0
   \<and> field ''body_length'' (example_request [(''Host'', ''localhost:3000'')] ''hello'')
        (do_POST (example_request [(''Host'', ''localhost:3000'')] ''hello'') 0) = Some (JInt 0)"
proof -
  have h: "lower ''Content-Length'' \<notin> set (map (\<lambda>kv. lower (fst kv)) (headers (example_request [(''Host'', ''localhost:3000'')] ''hello'')))"
    by (simp add: evaluate)
  show ?thesis
    using h post_without_content_length [OF h, of 0] by simp
qed

subsection \<open>What body_length reports\<close>

text \<open>
  C1, as stated: the \<open>body_length\<close> of every POST response is the number of bytes
  read from the request body. It fails: the request announces \<open>Content-Length: 10\<close>,
  the peer sends \<open>hello\<close> and closes; the handler reads 5 bytes and reports 10.
\<close>

theorem body_length_read_counterexample:
  "field ''body_length'' (example_request [(''Content-Length'', ''10'')] ''hello'')
     (do_POST (example_request [(''Content-Length'', ''10'')] ''hello'') 0) = Some (JInt 10)
   \<and> bytes_read (example_request [(''Content-Length'', ''10'')] ''hello'')
     (do_POST (example_request [(''Content-Length'', ''10'')] ''hello'') 0) = 5
   \<and> field ''body_length'' (example_request [(''Content-Length'', ''10'')] ''hello'')
     (do_POST (example_request [(''Content-Length'', ''10'')] ''hello'') 0) \<noteq>
       Some (JInt (int (bytes_read (example_request [(''Content-Length'', ''10'')] ''hello'')
         (do_POST (example_request [(''Content-Length'', ''10'')] ''hello'') 0))))"
proof -
  have "py_int (headers_get (headers (example_request [(''Content-Length'', ''10'')] ''hello''))
          ''Content-Length'' (PInt 0)) = Inr 10"
    by (simp add: evaluate)
  from do_POST_returns [OF this, of 0] show ?thesis
    by (simp add: observe) (simp add: example_request_def)
qed

text \<open>
  C1, as amended: in every POST response \<open>body_length\<close> is the integer that
  \<open>int\<close> makes of the \<open>Content-Length\<close> header (0 without the header), not a count
  of the bytes read. The handler reads that many bytes or, when the stream ends earlier,
  what is left (all of it for -1); so the reported value is the number of bytes read
  exactly when it is not negative and the stream holds at least that many bytes.
\<close>

theorem body_length_is_content_length:
  assumes "do_POST h now = Returned h'"
  shows "\<exists>n. py_int (headers_get (headers h) ''Content-Length'' (PInt 0)) = Inr n
           \<and> field ''body_length'' h (do_POST h now) = Some (JInt n)
           \<and> bytes_read h (do_POST h now) =
               (if n = - 1 then length (rfile h) else min (nat n) (length (rfile h)))
           \<and> (n = int (bytes_read h (do_POST h now)) \<longleftrightarrow> 0 \<le> n \<and> nat n \<le> length (rfile h))"
proof -
  from assms obtain n
    where n: "py_int (headers_get (headers h) ''Content-Length'' (PInt 0)) = Inr n" and r: "- 1 \<le> n"
    by (rule do_POST_Returned_content_length)
  have f: "field ''body_length'' h (do_POST h now) = Some (JInt n)"
    using do_POST_returns [OF n r, of now] by (simp add: observe)
  have b: "bytes_read h (do_POST h now) =
             (if n = - 1 then length (rfile h) else min (nat n) (length (rfile h)))"
    using do_POST_returns [OF n r, of now] by (auto simp: observe)
  have "n = int (bytes_read h (do_POST h now)) \<longleftrightarrow> 0 \<le> n \<and> nat n \<le> length (rfile h)"
    using r by (auto simp: b)
  with n f b show ?thesis by blast
qed

text \<open>
  The amended C1 at \<open>Content-Length: 7\<close> with the five bytes \<open>hello\<close>.
\<close>

theorem body_length_is_content_length_witness:
  "do_POST (example_request [(''Content-Length'', ''7'')] ''hello'') 0 =
     Returned (after (do_POST (example_request [(''Content-Length'', ''7'')] ''hello'') 0))
   \<and> field ''body_length'' (example_request [(''Content-Length'', ''7'')] ''hello'')
        (do_POST (example_request [(''Content-Length'', ''7'')] ''hello'') 0) = Some (JInt 7)
   \<and> bytes_read (example_request [(''Content-Length'', ''7'')] ''hello'')
        (do_POST (example_request [(''Content-Length'', ''7'')] ''hello'') 0) = 5"
proof -
  have p: "py_int (headers_get (headers (example_request [(''Content-Length'', ''7'')] ''hello''))
          ''Content-Length'' (PInt 0)) = Inr 7"
    by (simp add: evaluate)
  have h: "do_POST (example_request [(''Content-Length'', ''7'')] ''hello'') 0 =
     Returned (after (do_POST (example_request [(''Content-Length'', ''7'')] ''hello'') 0))"
    using do_POST_returns [OF p, of 0] by simp
  show ?thesis
    using h p body_length_is_content_length [OF h] by (auto simp: example_request_def)
qed

subsection \<open>A Content-Length that is not an integer\<close>

text \<open>
  C2, as stated: a POST request whose \<open>Content-Length\<close> is not an integer is answered
  with status 200 and \<open>body_length\<close> 0, and the handler does not fail. It fails at
  \<open>Content-Length: abc\<close>: \<open>int\<close> raises \<open>ValueError\<close>, the exception leaves
  \<open>do_POST\<close>, nothing is written and there is no \<open>body_length\<close>.
\<close>

theorem malformed_content_length_counterexample:
  "do_POST (example_request [(''Content-Length'', ''abc'')] ''hello'') 0 =
     Raised ValueError (example_request [(''Content-Length'', ''abc'')] ''hello'')
   \<and> reply (example_request [(''Content-Length'', ''abc'')] ''hello'')
        (do_POST (example_request [(''Content-Length'', ''abc'')] ''hello'') 0) = []
   \<and> field ''body_length'' (example_request [(''Content-Length'', ''abc'')] ''hello'')
        (do_POST (example_request [(''Content-Length'', ''abc'')] ''hello'') 0) = None"
proof -
  have "py_int (headers_get (headers (example_request [(''Content-Length'', ''abc'')] ''hello''))
          ''Content-Length'' (PInt 0)) = Inl ValueError"
    by (simp add: evaluate)
  from do_POST_raises_int [OF this, of 0] show ?thesis
    by (simp add: observe)
qed

text \<open>
  C2, as amended: for every POST request whose \<open>Content-Length\<close> header is present
  and is not an integer for \<open>int\<close>, \<open>do_POST\<close> ends with \<open>ValueError\<close> before it
  has read a byte of the body or written any part of a response.
\<close>

theorem malformed_content_length_raises:
  assumes "headers_get (headers h) ''Content-Length'' (PInt 0) = PStr v"
    and "py_int (PStr v) = Inl e"
  shows "do_POST h now = Raised ValueError h
       \<and> bytes_read h (do_POST h now) = 0
       \<and> reply h (do_POST h now) = []"
proof -
  have "py_int (headers_get (headers h) ''Content-Length'' (PInt 0)) = Inl e"
    using assms by simp
  from do_POST_raises_int [OF this, of now] show ?thesis
    by (simp add: observe)
qed

text \<open>
  The amended C2 at the header \<open>content-length: 12 bytes\<close>.
\<close>

theorem malformed_content_length_raises_witness:
  "headers_get (headers (example_request [(''content-length'', ''12 bytes'')] ''hello world!''))
      ''Content-Length'' (PInt 0) = PStr ''12 bytes''
   \<and> py_int (PStr ''12 bytes'') = Inl ValueError
   \<and> do_POST (example_request [(''content-length'', ''12 bytes'')] ''hello world!'') 0 =
       Raised ValueError (example_request [(''content-length'', ''12 bytes'')] ''hello world!'')"
proof -
  have h: "headers_get (headers (example_request [(''content-length'', ''12 bytes'')] ''hello world!''))
      ''Content-Length'' (PInt 0) = PStr ''12 bytes''"
    by code_simp
  have p: "py_int (PStr ''12 bytes'') = Inl ValueError"
    by (simp add: evaluate)
  show ?thesis
    using h p malformed_content_length_raises [OF h p, of 0] by simp
qed

subsection \<open>The identity of the backend\<close>

text \<open>
  C4: when \<open>run_backend\<close> has started the server with a valid (positive) port
  \<open>P\<close> and the name \<open>N\<close>, every response of \<open>do_GET\<close> or \<open>do_POST\<close> on
  that server has \<open>backend\<close> equal to \<open>N\<close> and \<open>port\<close> equal to \<open>P\<close>, and
  any two responses agree on both fields.
\<close>

theorem backend_and_port_fixed:
  assumes "0 < P" and "state (run_backend sys P N) = Serving srv"
    and "server h1 = srv" and "r1 = do_GET h1 t1 \<or> r1 = do_POST h1 t1" and "r1 = Returned h1'"
    and "server h2 = srv" and "r2 = do_GET h2 t2 \<or> r2 = do_POST h2 t2" and "r2 = Returned h2'"
  shows "field ''backend'' h1 r1 = Some (JStr N) \<and> field ''port'' h1 r1 = Some (JInt P)
       \<and> field ''backend'' h2 r2 = field ''backend'' h1 r1
       \<and> field ''port'' h2 r2 = field ''port'' h1 r1"
proof -
  from assms(1,2) have srv: "backend_name srv = N" "server_port srv = P"
    using run_backend_Serving [of sys P N srv] by auto
  from fields_of_Returned [OF assms(4,5)] fields_of_Returned [OF assms(7,8)] srv assms(3,6)
  show ?thesis by simp
qed

text \<open>
  C4 on port 3000 with the name \<open>backend-1\<close>, for a GET and a POST request.
\<close>

theorem backend_and_port_fixed_witness:
  "(0::int) < 3000
   \<and> state (run_backend \<lparr>unavailable = [80], ephemeral = 49152\<rparr> 3000 ''backend-1'') = Serving backend1
   \<and> do_GET (example_request [] []) 1 = Returned (after (do_GET (example_request [] []) 1))
   \<and> do_POST (example_request [(''Content-Length'', ''5'')] ''hello'') 2 =
       Returned (after (do_POST (example_request [(''Content-Length'', ''5'')] ''hello'') 2))
   \<and> field ''backend'' (example_request [] []) (do_GET (example_request [] []) 1) = Some (JStr ''backend-1'')
   \<and> field ''port'' (example_request [] []) (do_GET (example_request [] []) 1) = Some (JInt 3000)
   \<and> field ''backend'' (example_request [(''Content-Length'', ''5'')] ''hello'')
        (do_POST (example_request [(''Content-Length'', ''5'')] ''hello'') 2) = Some (JStr ''backend-1'')
   \<and> field ''port'' (example_request [(''Content-Length'', ''5'')] ''hello'')
        (do_POST (example_request [(''Content-Length'', ''5'')] ''hello'') 2) = Some (JInt 3000)"
proof -
  have a: "(0::int) < 3000" by simp
  have b: "state (run_backend \<lparr>unavailable = [80], ephemeral = 49152\<rparr> 3000 ''backend-1'') = Serving backend1"
    by (simp add: run_backend_def HTTPServer_def backend1_def)
  have c: "server (example_request [] []) = backend1"
    by (simp add: example_request_def)
  have d: "do_GET (example_request [] []) 1 = do_GET (example_request [] []) 1
         \<or> do_GET (example_request [] []) 1 = do_POST (example_request [] []) 1"
    by simp
  have e: "do_GET (example_request [] []) 1 = Returned (after (do_GET (example_request [] []) 1))"
    by (simp add: do_GET_returns)
  have f: "server (example_request [(''Content-Length'', ''5'')] ''hello'') = backend1"
    by (simp add: example_request_def)
  have g: "do_POST (example_request [(''Content-Length'', ''5'')] ''hello'') 2 =
             do_GET (example_request [(''Content-Length'', ''5'')] ''hello'') 2
         \<or> do_POST (example_request [(''Content-Length'', ''5'')] ''hello'') 2 =
             do_POST (example_request [(''Content-Length'', ''5'')] ''hello'') 2"
    by simp
  have p: "py_int (headers_get (headers (example_request [(''Content-Length'', ''5'')] ''hello''))
          ''Content-Length'' (PInt 0)) = Inr 5"
    by (simp add: evaluate)
  have h: "do_POST (example_request [(''Content-Length'', ''5'')] ''hello'') 2 =
       Returned (after (do_POST (example_request [(''Content-Length'', ''5'')] ''hello'') 2))"
    using do_POST_returns [OF p, of 2] by simp
  show ?thesis
    using a b e h backend_and_port_fixed [OF a b c d e f g h] by simp
qed

subsection \<open>The path\<close>

lemma split_words_word:
  "\<forall>c\<in>set w. \<not> isspace c \<Longrightarrow> split_words cur (w @ rest) = split_words (cur @ w) rest"
  by (induction w arbitrary: cur) auto

lemma isspace_blank: "isspace (CHR '' '')"
  by (simp add: isspace_def)

lemma str_split_three:
  assumes "a \<noteq> []" "\<forall>c\<in>set a. \<not> isspace c"
    and "b \<noteq> []" "\<forall>c\<in>set b. \<not> isspace c"
    and "v \<noteq> []" "\<forall>c\<in>set v. \<not> isspace c"
  shows "str_split (a @ '' '' @ b @ '' '' @ v) = [a, b, v]"
proof -
  have "split_words [] (a @ CHR '' '' # b @ CHR '' '' # v) = split_words a (CHR '' '' # b @ CHR '' '' # v)"
    using split_words_word [OF assms(2), of "[]"] by simp
  also have "\<dots> = a # split_words [] (b @ CHR '' '' # v)"
    using assms(1) by (simp add: isspace_blank)
  also have "split_words [] (b @ CHR '' '' # v) = split_words b (CHR '' '' # v)"
    using split_words_word [OF assms(4), of "[]"] by simp
  also have "\<dots> = b # split_words [] (v @ [])"
    using assms(3) by (simp add: isspace_blank)
  also have "split_words [] (v @ []) = split_words v []"
    using split_words_word [OF assms(6), of "[]" "[]"] by simp
  also have "\<dots> = [v]" using assms(5) by simp
  finally show ?thesis by (simp add: str_split_def)
qed

lemma rstrip_crlf:
  assumes "s \<noteq> []" and "last s \<noteq> CHR 0x0D" and "last s \<noteq> CHR 0x0A"
  shows "rstrip (s @ [CHR 0x0D, CHR 0x0A]) [CHR 0x0D, CHR 0x0A] = s"
proof -
  have "rev s = last s # rev (butlast s)"
    using assms(1) by (simp add: rev_eq_Cons_iff)
  then have "dropWhile (\<lambda>c. c \<in> set [CHR 0x0D, CHR 0x0A]) (rev s) = rev s"
    using assms(2,3) by (metis dropWhile.simps(2) insert_iff list.set(1,2) empty_iff)
  then show ?thesis by (simp add: rstrip_def)
qed

lemma version_number_1x:
  "version_number ''HTTP/1.0'' = Inr (1, 0)" "version_number ''HTTP/1.1'' = Inr (1, 1)"
  by (simp_all add: version_number_def isdigit_def is_digit_def int_of_str_def strip_def
      is_space_def digits_def digit_val_def)

lemma parse_request_line:
  assumes "command = ''GET'' \<or> command = ''POST''"
    and "target \<noteq> []" and "\<forall>c\<in>set target. \<not> isspace c"
    and "version = ''HTTP/1.0'' \<or> version = ''HTTP/1.1''"
  shows "parse_request (command @ '' '' @ target @ '' '' @ version @ [CHR 0x0D, CHR 0x0A]) =
           Parsed command
             (if prefix ''//'' target then CHR ''/'' # dropWhile (\<lambda>c. c = CHR ''/'') target else target)"
proof -
  have c: "command \<noteq> []" "\<forall>c\<in>set command. \<not> isspace c"
    using assms(1) by (auto simp: isspace_def)
  have v: "version \<noteq> []" "\<forall>c\<in>set version. \<not> isspace c"
    using assms(4) by (auto simp: isspace_def)
  have l: "last (command @ '' '' @ target @ '' '' @ version) \<noteq> CHR 0x0D"
     "last (command @ '' '' @ target @ '' '' @ version) \<noteq> CHR 0x0A"
    using assms(4) by auto
  have "rstrip ((command @ '' '' @ target @ '' '' @ version) @ [CHR 0x0D, CHR 0x0A]) [CHR 0x0D, CHR 0x0A] =
      command @ '' '' @ target @ '' '' @ version"
    using l by (intro rstrip_crlf) simp_all
  then have r: "rstrip (command @ '' '' @ target @ '' '' @ version @ [CHR 0x0D, CHR 0x0A]) [CHR 0x0D, CHR 0x0A] =
      command @ '' '' @ target @ '' '' @ version"
    by simp
  have w: "str_split (command @ '' '' @ target @ '' '' @ version) = [command, target, version]"
    using str_split_three [OF c assms(2,3) v] .
  have n: "version_number version = Inr (1, 0) \<or> version_number version = Inr (1, 1)"
    using assms(4) version_number_1x by auto
  show ?thesis
    unfolding parse_request_def Let_def r w using n by auto
qed

lemma collapse_changes:
  assumes "prefix ''//'' target"
  shows "CHR ''/'' # dropWhile (\<lambda>c. c = CHR ''/'') target \<noteq> target"
proof -
  from assms obtain rest where t: "target = CHR ''/'' # CHR ''/'' # rest"
    by (auto simp: prefix_def)
  have "dropWhile (\<lambda>c. c = CHR ''/'') target \<noteq> CHR ''/'' # rest"
    by (metis (mono_tags, lifting) dropWhile_eq_Cons_conv)
  with t show ?thesis by simp
qed

lemma handle_one_request_line:
  assumes "command = ''GET'' \<or> command = ''POST''"
    and "target \<noteq> []" and "\<forall>c\<in>set target. \<not> isspace c"
    and "version = ''HTTP/1.0'' \<or> version = ''HTTP/1.1''"
    and "length (command @ '' '' @ target @ '' '' @ version @ [CHR 0x0D, CHR 0x0A]) \<le> 65536"
  shows "handle_one_request h (command @ '' '' @ target @ '' '' @ version @ [CHR 0x0D, CHR 0x0A]) now =
           (if command = ''GET''
            then Called (do_GET (h\<lparr>path := (if prefix ''//'' target
                   then CHR ''/'' # dropWhile (\<lambda>c. c = CHR ''/'') target else target)\<rparr>) now)
            else Called (do_POST (h\<lparr>path := (if prefix ''//'' target
                   then CHR ''/'' # dropWhile (\<lambda>c. c = CHR ''/'') target else target)\<rparr>) now))"
  unfolding handle_one_request_def parse_request_line [OF assms(1-4)] Let_def
  using assms(1,5) by auto

lemmas parse_defs = parse_request_def rstrip_def str_split_def isspace_def version_number_def
  isdigit_def is_digit_def int_of_str_def strip_def is_space_def digits_def digit_val_def

text \<open>
  C5, as stated: for every request and every request target the \<open>path\<close> field of the
  response is the raw target, byte for byte, with no normalization. It fails: the request
  line \<open>GET //x//y HTTP/1.1\<close> is answered with the path \<open>/x//y\<close>, and a target
  \<open>/x\<close> followed by the byte 0xA0 is answered with the path \<open>/x\<close>.
\<close>

theorem path_is_request_target_counterexample:
  "answer_field ''path'' (example_request [] [])
     (handle_one_request (example_request [] []) (''GET //x//y HTTP/1.1'' @ [CHR 0x0D, CHR 0x0A]) 0) =
     Some (JStr ''/x//y'')
   \<and> answer_field ''path'' (example_request [] [])
     (handle_one_request (example_request [] []) (''GET //x//y HTTP/1.1'' @ [CHR 0x0D, CHR 0x0A]) 0) \<noteq>
     Some (JStr ''//x//y'')
   \<and> answer_field ''path'' (example_request [] [])
     (handle_one_request (example_request [] [])
        (''GET /x'' @ [CHR 0xA0] @ '' HTTP/1.1'' @ [CHR 0x0D, CHR 0x0A]) 0) =
     Some (JStr ''/x'')"
proof -
  have a: "parse_request (''GET //x//y HTTP/1.1'' @ [CHR 0x0D, CHR 0x0A]) = Parsed ''GET'' ''/x//y''"
    by (simp add: parse_defs)
  have b: "parse_request (''GET /x'' @ [CHR 0xA0] @ '' HTTP/1.1'' @ [CHR 0x0D, CHR 0x0A]) =
             Parsed ''GET'' ''/x''"
    by (simp add: parse_defs)
  have "handle_one_request (example_request [] []) (''GET //x//y HTTP/1.1'' @ [CHR 0x0D, CHR 0x0A]) 0 =
          Called (do_GET ((example_request [] [])\<lparr>path := ''/x//y''\<rparr>) 0)"
    unfolding handle_one_request_def a by simp
  moreover have "handle_one_request (example_request [] [])
          (''GET /x'' @ [CHR 0xA0] @ '' HTTP/1.1'' @ [CHR 0x0D, CHR 0x0A]) 0 =
          Called (do_GET ((example_request [] [])\<lparr>path := ''/x''\<rparr>) 0)"
    unfolding handle_one_request_def b by simp
  ultimately show ?thesis
    by (simp add: answer_field_def do_GET_returns observe)
qed

text \<open>
  C5, as amended: for every request line \<open>METHOD target VERSION\<close> with the method
  \<open>GET\<close> or \<open>POST\<close>, the version \<open>HTTP/1.0\<close> or \<open>HTTP/1.1\<close>, a target that is
  not empty and has no white space in it, and at most 65536 bytes in all, the \<open>path\<close>
  field of the response, when the request is answered, is the target byte for byte (query
  string and percent escapes untouched), except that a target that starts with two slashes
  has its leading slashes reduced to one. So the field is the raw target exactly when the
  target does not start with two slashes.
\<close>

theorem path_is_request_target:
  assumes "command = ''GET'' \<or> command = ''POST''"
    and "target \<noteq> []" and "\<forall>c\<in>set target. \<not> isspace c"
    and "version = ''HTTP/1.0'' \<or> version = ''HTTP/1.1''"
    and "length (command @ '' '' @ target @ '' '' @ version @ [CHR 0x0D, CHR 0x0A]) \<le> 65536"
    and "handle_one_request h (command @ '' '' @ target @ '' '' @ version @ [CHR 0x0D, CHR 0x0A]) now =
           Called (Returned h')"
  shows "answer_field ''path'' h
           (handle_one_request h (command @ '' '' @ target @ '' '' @ version @ [CHR 0x0D, CHR 0x0A]) now) =
         Some (JStr (if prefix ''//'' target
                     then CHR ''/'' # dropWhile (\<lambda>c. c = CHR ''/'') target else target))
       \<and> (answer_field ''path'' h
           (handle_one_request h (command @ '' '' @ target @ '' '' @ version @ [CHR 0x0D, CHR 0x0A]) now) =
            Some (JStr target) \<longleftrightarrow> \<not> prefix ''//'' target)"
proof -
  let ?p = "if prefix ''//'' target then CHR ''/'' # dropWhile (\<lambda>c. c = CHR ''/'') target else target"
  let ?h = "h\<lparr>path := ?p\<rparr>"
  have r: "Returned h' = do_GET ?h now \<or> Returned h' = do_POST ?h now"
    using assms(6) handle_one_request_line [OF assms(1-5), of h now] by (auto split: if_splits)
  have "field ''path'' ?h (Returned h') = Some (JStr (path ?h))"
    using fields_of_Returned [OF r] by simp
  then have f: "field ''path'' h (Returned h') = Some (JStr ?p)"
    by (simp add: observe)
  have "?p = target \<longleftrightarrow> \<not> prefix ''//'' target"
    using collapse_changes [of target] by auto
  with f show ?thesis
    unfolding assms(6) by (simp add: answer_field_def)
qed

text \<open>
  The amended C5 at a POST request whose target has a query string and a percent escape,
  and at a GET request whose target starts with three slashes.
\<close>

theorem path_is_request_target_witness:
  "handle_one_request (example_request [(''Content-Length'', ''0'')] [])
      (''POST'' @ '' '' @ ''/ingest?a=%41//b'' @ '' '' @ ''HTTP/1.1'' @ [CHR 0x0D, CHR 0x0A]) 3 =
     Called (Returned (after (do_POST (example_request [(''Content-Length'', ''0'')] []) 3)))
   \<and> answer_field ''path'' (example_request [(''Content-Length'', ''0'')] [])
        (handle_one_request (example_request [(''Content-Length'', ''0'')] [])
          (''POST'' @ '' '' @ ''/ingest?a=%41//b'' @ '' '' @ ''HTTP/1.1'' @ [CHR 0x0D, CHR 0x0A]) 3) =
       Some (JStr ''/ingest?a=%41//b'')
   \<and> handle_one_request (example_request [] [])
      (''GET'' @ '' '' @ ''///x//y'' @ '' '' @ ''HTTP/1.0'' @ [CHR 0x0D, CHR 0x0A]) 4 =
     Called (Returned (after (do_GET ((example_request [] [])\<lparr>path := ''/x//y''\<rparr>) 4)))
   \<and> answer_field ''path'' (example_request [] [])
        (handle_one_request (example_request [] [])
          (''GET'' @ '' '' @ ''///x//y'' @ '' '' @ ''HTTP/1.0'' @ [CHR 0x0D, CHR 0x0A]) 4) =
       Some (JStr ''/x//y'')"
proof -
  have a1: "''POST'' = ''GET'' \<or> ''POST'' = ''POST''" by simp
  have a2: "''/ingest?a=%41//b'' \<noteq> []" by simp
  have a3: "\<forall>c\<in>set ''/ingest?a=%41//b''. \<not> isspace c" by (simp add: isspace_def)
  have a4: "''HTTP/1.1'' = ''HTTP/1.0'' \<or> ''HTTP/1.1'' = ''HTTP/1.1''" by simp
  have a5: "length (''POST'' @ '' '' @ ''/ingest?a=%41//b'' @ '' '' @ ''HTTP/1.1'' @ [CHR 0x0D, CHR 0x0A]) \<le> 65536"
    by simp
  have p: "py_int (headers_get (headers (example_request [(''Content-Length'', ''0'')] []))
          ''Content-Length'' (PInt 0)) = Inr 0"
    by (simp add: evaluate)
  have e: "(example_request [(''Content-Length'', ''0'')] [])\<lparr>path := ''/ingest?a=%41//b''\<rparr> =
             example_request [(''Content-Length'', ''0'')] []"
    by (simp add: example_request_def)
  have a6: "handle_one_request (example_request [(''Content-Length'', ''0'')] [])
      (''POST'' @ '' '' @ ''/ingest?a=%41//b'' @ '' '' @ ''HTTP/1.1'' @ [CHR 0x0D, CHR 0x0A]) 3 =
     Called (Returned (after (do_POST (example_request [(''Content-Length'', ''0'')] []) 3)))"
    unfolding handle_one_request_line [OF a1 a2 a3 a4 a5]
    using do_POST_returns [OF p, of 3] by (simp add: e)
  have b1: "''GET'' = ''GET'' \<or> ''GET'' = ''POST''" by simp
  have b2: "''///x//y'' \<noteq> []" by simp
  have b3: "\<forall>c\<in>set ''///x//y''. \<not> isspace c" by (simp add: isspace_def)
  have b4: "''HTTP/1.0'' = ''HTTP/1.0'' \<or> ''HTTP/1.0'' = ''HTTP/1.1''" by simp
  have b5: "length (''GET'' @ '' '' @ ''///x//y'' @ '' '' @ ''HTTP/1.0'' @ [CHR 0x0D, CHR 0x0A]) \<le> 65536"
    by simp
  have b6: "handle_one_request (example_request [] [])
      (''GET'' @ '' '' @ ''///x//y'' @ '' '' @ ''HTTP/1.0'' @ [CHR 0x0D, CHR 0x0A]) 4 =
     Called (Returned (after (do_GET ((example_request [] [])\<lparr>path := ''/x//y''\<rparr>) 4)))"
    unfolding handle_one_request_line [OF b1 b2 b3 b4 b5]
    by (simp add: do_GET_returns)
  show ?thesis
    using a6 b6 path_is_request_target [OF a1 a2 a3 a4 a5 a6]
      path_is_request_target [OF b1 b2 b3 b4 b5 b6]
    by simp
qed

subsection \<open>The keys of the response\<close>

text \<open>
  C6: the JSON of a GET response has exactly the keys \<open>backend\<close>, \<open>port\<close>,
  \<open>path\<close>, \<open>method\<close>, \<open>timestamp\<close> and no \<open>body_length\<close>; the JSON of a
  POST response has exactly \<open>backend\<close>, \<open>port\<close>, \<open>path\<close>, \<open>method\<close>,
  \<open>body_length\<close>, \<open>timestamp\<close>.
\<close>

theorem response_keys:
  "keys h (do_GET h now) = Some [''backend'', ''port'', ''path'', ''method'', ''timestamp'']
   \<and> field ''body_length'' h (do_GET h now) = None
   \<and> (do_POST h now = Returned h' \<longrightarrow>
        keys h (do_POST h now) =
          Some [''backend'', ''port'', ''path'', ''method'', ''body_length'', ''timestamp''])"
proof -
  have get: "keys h (do_GET h now) = Some [''backend'', ''port'', ''path'', ''method'', ''timestamp'']
       \<and> field ''body_length'' h (do_GET h now) = None"
    by (simp add: do_GET_returns observe)
  have "keys h (do_POST h now) =
          Some [''backend'', ''port'', ''path'', ''method'', ''body_length'', ''timestamp'']"
    if "do_POST h now = Returned h'"
  proof -
    from that obtain n
      where "py_int (headers_get (headers h) ''Content-Length'' (PInt 0)) = Inr n" and "- 1 \<le> n"
      by (rule do_POST_Returned_content_length)
    from do_POST_returns [OF this, of now] show ?thesis
      by (simp add: observe)
  qed
  with get show ?thesis by blast
qed

text \<open>
  C6 for a POST request with \<open>Content-Length: 3\<close>.
\<close>

theorem response_keys_witness:
  "do_POST (example_request [(''Content-Length'', ''3'')] ''abcdef'') 4 =
     Returned (after (do_POST (example_request [(''Content-Length'', ''3'')] ''abcdef'') 4))
   \<and> keys (example_request [(''Content-Length'', ''3'')] ''abcdef'')
        (do_POST (example_request [(''Content-Length'', ''3'')] ''abcdef'') 4) =
       Some [''backend'', ''port'', ''path'', ''method'', ''body_length'', ''timestamp'']"
proof -
  have p: "py_int (headers_get (headers (example_request [(''Content-Length'', ''3'')] ''abcdef''))
          ''Content-Length'' (PInt 0)) = Inr 3"
    by (simp add: evaluate)
  have h: "do_POST (example_request [(''Content-Length'', ''3'')] ''abcdef'') 4 =
     Returned (after (do_POST (example_request [(''Content-Length'', ''3'')] ''abcdef'') 4))"
    using do_POST_returns [OF p, of 4] by simp
  show ?thesis
    using h response_keys [of "example_request [(''Content-Length'', ''3'')] ''abcdef''" 4
        "after (do_POST (example_request [(''Content-Length'', ''3'')] ''abcdef'') 4)"]
    by simp
qed

subsection \<open>A correct Content-Length\<close>

text \<open>
  C7: when the body of a POST request has length \<open>L\<close> and the \<open>Content-Length\<close>
  header is the decimal numeral of \<open>L\<close>, the response has \<open>body_length\<close> equal to
  \<open>L\<close>; the handler has read exactly the body and left what follows it on the stream.
\<close>

theorem correct_content_length:
  assumes "headers_get (headers h) ''Content-Length'' (PInt 0) = PStr (str_nat (length body))"
    and "rfile h = body @ rest"
  shows "field ''body_length'' h (do_POST h now) = Some (JInt (int (length body)))
       \<and> bytes_read h (do_POST h now) = length body
       \<and> rfile (after (do_POST h now)) = rest"
proof -
  have "py_int (headers_get (headers h) ''Content-Length'' (PInt 0)) = Inr (int (length body))"
    using assms(1) by (simp add: int_of_str_str_nat)
  from do_POST_returns [OF this, of now] assms(2) show ?thesis
    by (simp add: observe)
qed

text \<open>
  C7 at the body \<open>hello\<close> with \<open>Content-Length: 5\<close>, followed on the stream by
  the start of another request.
\<close>

theorem correct_content_length_witness:
  "headers_get (headers (example_request [(''Content-Length'', ''5'')] ''helloGET / HTTP/1.1''))
       ''Content-Length'' (PInt 0) = PStr (str_nat (length ''hello''))
   \<and> field ''body_length'' (example_request [(''Content-Length'', ''5'')] ''helloGET / HTTP/1.1'')
        (do_POST (example_request [(''Content-Length'', ''5'')] ''helloGET / HTTP/1.1'') 0) = Some (JInt 5)
   \<and> bytes_read (example_request [(''Content-Length'', ''5'')] ''helloGET / HTTP/1.1'')
        (do_POST (example_request [(''Content-Length'', ''5'')] ''helloGET / HTTP/1.1'') 0) = 5
   \<and> rfile (after (do_POST (example_request [(''Content-Length'', ''5'')] ''helloGET / HTTP/1.1'') 0)) =
        ''GET / HTTP/1.1''"
proof -
  have a: "headers_get (headers (example_request [(''Content-Length'', ''5'')] ''helloGET / HTTP/1.1''))
       ''Content-Length'' (PInt 0) = PStr (str_nat (length ''hello''))"
    by code_simp
  have b: "rfile (example_request [(''Content-Length'', ''5'')] ''helloGET / HTTP/1.1'') =
       ''hello'' @ ''GET / HTTP/1.1''"
    by (simp add: example_request_def)
  show ?thesis
    using a correct_content_length [OF a b, of 0] by simp
qed

subsection \<open>The command line\<close>

text \<open>
  C8: called without a port argument, the program prints a usage message that contains
  \<open>Usage:\<close> on standard output and exits with status 1; no server is started.
\<close>

theorem usage_without_port:
  assumes "length argv < 2"
  shows "state (main sys argv) = Exited 1
       \<and> sublist ''Usage:'' (concat (stdout (main sys argv)))
       \<and> (\<forall>srv. state (main sys argv) \<noteq> Serving srv)"
proof -
  have m: "main sys argv =
     \<lparr>stdout = [''Usage: python backend_server.py <port> [name]'',
                ''Example: python backend_server.py 3000 backend-1''],
      state = Exited 1\<rparr>"
    using assms by (simp add: main_def)
  have "concat (stdout (main sys argv)) =
      [] @ ''Usage:'' @ '' python backend_server.py <port> [name]Example: python backend_server.py 3000 backend-1''"
    by (simp add: m)
  then have "sublist ''Usage:'' (concat (stdout (main sys argv)))"
    by (simp only: sublist_appendI)
  with m show ?thesis by simp
qed

text \<open>
  C8 at the command line that holds the script name only.
\<close>

theorem usage_without_port_witness:
  "length [''backend_server.py''] < 2
   \<and> state (main \<lparr>unavailable = [], ephemeral = 49152\<rparr> [''backend_server.py'']) = Exited 1
   \<and> sublist ''Usage:'' (concat (stdout (main \<lparr>unavailable = [], ephemeral = 49152\<rparr> [''backend_server.py''])))"
proof -
  have h: "length [''backend_server.py''] < 2" by simp
  show ?thesis
    using h usage_without_port [OF h, of "\<lparr>unavailable = [], ephemeral = 49152\<rparr>"] by simp
qed

text \<open>
  C9: called with a first argument that \<open>int\<close> does not accept, the program ends with
  the \<open>ValueError\<close> of the unguarded conversion, which nobody catches: it prints no
  usage message, does not leave through \<open>sys.exit(1)\<close> and starts no server.
\<close>

theorem non_integer_port_uncaught:
  assumes "2 \<le> length argv" and "py_int (PStr (argv ! 1)) = Inl e"
  shows "main sys argv = \<lparr>stdout = [], state = Uncaught ValueError\<rparr>"
  using assms py_int_error [OF assms(2)] by (simp add: main_def)

text \<open>
  C9 at the argument \<open>abc\<close>.
\<close>

theorem non_integer_port_uncaught_witness:
  "2 \<le> length [''backend_server.py'', ''abc'']
   \<and> py_int (PStr ([''backend_server.py'', ''abc''] ! 1)) = Inl ValueError
   \<and> main \<lparr>unavailable = [], ephemeral = 49152\<rparr> [''backend_server.py'', ''abc''] =
       \<lparr>stdout = [], state = Uncaught ValueError\<rparr>"
proof -
  have a: "2 \<le> length [''backend_server.py'', ''abc'']" by simp
  have b: "py_int (PStr ([''backend_server.py'', ''abc''] ! 1)) = Inl ValueError"
    by (simp add: evaluate)
  show ?thesis
    using a b non_integer_port_uncaught [OF a b, of "\<lparr>unavailable = [], ephemeral = 49152\<rparr>"] by simp
qed

subsection \<open>A negative Content-Length\<close>

text \<open>
  C10, as stated: a POST request whose \<open>Content-Length\<close> is a negative integer, such as
  \<open>-5\<close>, is accepted and answered with that value as \<open>body_length\<close>. It fails at
  \<open>-5\<close>: \<open>int\<close> accepts the header, but \<open>rfile.read(-5)\<close> raises
  \<open>ValueError\<close>, so \<open>do_POST\<close> is left before anything is written.
\<close>

theorem negative_content_length_counterexample:
  "do_POST (example_request [(''Content-Length'', ''-5'')] ''hello'') 0 =
     Raised ValueError (example_request [(''Content-Length'', ''-5'')] ''hello'')
   \<and> field ''body_length'' (example_request [(''Content-Length'', ''-5'')] ''hello'')
        (do_POST (example_request [(''Content-Length'', ''-5'')] ''hello'') 0) = None"
proof -
  have "py_int (headers_get (headers (example_request [(''Content-Length'', ''-5'')] ''hello''))
          ''Content-Length'' (PInt 0)) = Inr (- 5)"
    by (simp add: evaluate)
  from do_POST_raises_read [OF this, of 0] show ?thesis
    by (simp add: observe)
qed

text \<open>
  C10, as amended: a negative \<open>Content-Length\<close> is never taken for 0. For \<open>-1\<close>
  the handler reads the stream to its end and the response reports \<open>-1\<close> as
  \<open>body_length\<close>. For every value below \<open>-1\<close> the read raises an exception,
  \<open>ValueError\<close> down to \<open>-2^63\<close> and \<open>OverflowError\<close> below that; the handler has
  then read nothing and no response is written.
\<close>

theorem negative_content_length:
  assumes "headers_get (headers h) ''Content-Length'' (PInt 0) = PStr v"
    and "py_int (PStr v) = Inr n" and "n < 0"
  shows "(n = - 1 \<longrightarrow>
            do_POST h now = Returned (after (do_POST h now))
          \<and> field ''body_length'' h (do_POST h now) = Some (JInt (- 1))
          \<and> bytes_read h (do_POST h now) = length (rfile h))
       \<and> (n < - 1 \<and> - 9223372036854775808 \<le> n \<longrightarrow> do_POST h now = Raised ValueError h)
       \<and> (n < - 9223372036854775808 \<longrightarrow> do_POST h now = Raised OverflowError h)
       \<and> (n < - 1 \<longrightarrow> reply h (do_POST h now) = [] \<and> bytes_read h (do_POST h now) = 0)
       \<and> field ''body_length'' h (do_POST h now) \<noteq> Some (JInt 0)"
proof (cases "n = - 1")
  case True
  with assms have "py_int (headers_get (headers h) ''Content-Length'' (PInt 0)) = Inr (- 1)"
    by simp
  from do_POST_returns [OF this, of now] True show ?thesis
    by (simp add: observe)
next
  case False
  with assms have "py_int (headers_get (headers h) ''Content-Length'' (PInt 0)) = Inr n" "n < - 1"
    by simp_all
  from do_POST_raises_read [OF this, of now] False show ?thesis
    by (simp add: observe)
qed

text \<open>
  The amended C10 at \<open>-1\<close>, at \<open>-7\<close> and at \<open>-2^63 - 1\<close>.
\<close>

theorem negative_content_length_witness:
  "py_int (PStr ''-1'') = Inr (- 1)
   \<and> field ''body_length'' (example_request [(''Content-Length'', ''-1'')] ''hello'')
        (do_POST (example_request [(''Content-Length'', ''-1'')] ''hello'') 0) = Some (JInt (- 1))
   \<and> bytes_read (example_request [(''Content-Length'', ''-1'')] ''hello'')
        (do_POST (example_request [(''Content-Length'', ''-1'')] ''hello'') 0) = 5
   \<and> py_int (PStr ''-7'') = Inr (- 7)
   \<and> do_POST (example_request [(''Content-Length'', ''-7'')] ''hello'') 0 =
       Raised ValueError (example_request [(''Content-Length'', ''-7'')] ''hello'')
   \<and> py_int (PStr ''-9223372036854775809'') = Inr (- 9223372036854775809)
   \<and> do_POST (example_request [(''Content-Length'', ''-9223372036854775809'')] ''hello'') 0 =
       Raised OverflowError (example_request [(''Content-Length'', ''-9223372036854775809'')] ''hello'')"
proof -
  have a1: "headers_get (headers (example_request [(''Content-Length'', ''-1'')] ''hello''))
       ''Content-Length'' (PInt 0) = PStr ''-1''"
    by (simp add: example_request_def)
  have b1: "py_int (PStr ''-1'') = Inr (- 1)" by (simp add: evaluate)
  have c1: "(- 1 :: int) < 0" by simp
  have a7: "headers_get (headers (example_request [(''Content-Length'', ''-7'')] ''hello''))
       ''Content-Length'' (PInt 0) = PStr ''-7''"
    by (simp add: example_request_def)
  have b7: "py_int (PStr ''-7'') = Inr (- 7)" by (simp add: evaluate)
  have c7: "(- 7 :: int) < 0" by simp
  have a9: "headers_get (headers (example_request [(''Content-Length'', ''-9223372036854775809'')] ''hello''))
       ''Content-Length'' (PInt 0) = PStr ''-9223372036854775809''"
    by (simp add: example_request_def)
  have b9: "py_int (PStr ''-9223372036854775809'') = Inr (- 9223372036854775809)"
    by (simp add: evaluate)
  have c9: "(- 9223372036854775809 :: int) < 0" by simp
  show ?thesis
    using b1 b7 b9 negative_content_length [OF a1 b1 c1, of 0]
      negative_content_length [OF a7 b7 c7, of 0] negative_content_length [OF a9 b9 c9, of 0]
    by (simp add: example_request_def)
qed

end
